theory Spec2Isabelle
  imports Main
begin

section \<open>Python's exceptions and sequencing\<close>

text \<open>
  Both scripts of the repository are module-level statement sequences without any
  \<^verbatim>\<open>try\<close>: a statement that raises ends the script with that exception, a statement
  that returns hands its value and the changed world to the next one.  A statement is a
  function from the world to an outcome and the world it leaves; \<open>Inl\<close> is a raised
  exception.
\<close>

datatype exn =
    FileNotFoundError
  | ParserError
  | OSError
  | ImportError
  | Exception string

type_synonym ('w, 'a) stmt = "'w \<Rightarrow> (exn + 'a) \<times> 'w"

definition bind_exn :: "('w, 'a) stmt \<Rightarrow> ('a \<Rightarrow> ('w, 'b) stmt) \<Rightarrow> ('w, 'b) stmt" where
  "bind_exn m f w = (case m w of
       (Inl e, w') \<Rightarrow> (Inl e, w')
     | (Inr a, w') \<Rightarrow> f a w')"

section \<open>The converter: generate_parquet.py\<close>

subsection \<open>The world the script acts on\<close>

text \<open>
  The file system maps a path to the bytes stored there; distinct path strings name
  distinct files.  \<open>calls\<close> is the log of the library calls the script has made, in
  order; the library cannot see it.
\<close>

type_synonym path = string

datatype 'df call =
    Read_csv path
  | To_parquet 'df path bool
  | Print string

record ('df, 'b) world =
  files :: "path \<rightharpoonup> 'b"
  stdout :: "string list"
  calls :: "'df call list"

subsection \<open>The library the script calls\<close>

text \<open>
  pandas and the console are not code of the repository; they are parameters.
  \<open>parse_csv\<close> is what \<^verbatim>\<open>pd.read_csv\<close> makes of the bytes of an existing file: a data
  frame or an exception.  \<open>write_parquet\<close> is what \<^verbatim>\<open>DataFrame.to_parquet\<close> does to the
  one file it is given (its previous state is the last argument): it writes the file, or
  it raises and leaves the file in some state.  \<open>emit\<close> says what becomes of a line
  handed to \<^verbatim>\<open>print\<close>: the stream takes it, the stream refuses it with an exception (for
  instance for its encoding), or the process has no standard output stream
  (\<^verbatim>\<open>sys.stdout\<close> is \<^verbatim>\<open>None\<close>).
\<close>

datatype console =
    Accepts
  | Refuses exn
  | Absent

datatype 'b written =
    Wrote 'b
  | Write_failed exn "'b option"

record ('df, 'b) pandas =
  parse_csv :: "path \<Rightarrow> 'b \<Rightarrow> exn + 'df"
  write_parquet :: "'df \<Rightarrow> path \<Rightarrow> bool \<Rightarrow> 'b option \<Rightarrow> 'b written"
  emit :: "string \<Rightarrow> console"

definition log_call :: "'df call \<Rightarrow> ('df, 'b) world \<Rightarrow> ('df, 'b) world" where
  "log_call c w = w\<lparr>calls := calls w @ [c]\<rparr>"

text \<open>\<^verbatim>\<open>pd.read_csv(p)\<close>: a missing file raises \<^verbatim>\<open>FileNotFoundError\<close>; nothing is written.\<close>

definition read_csv :: "('df, 'b) pandas \<Rightarrow> path \<Rightarrow> (('df, 'b) world, 'df) stmt" where
  "read_csv lib p w = (case files w p of
       None \<Rightarrow> (Inl FileNotFoundError, log_call (Read_csv p) w)
     | Some b \<Rightarrow> (parse_csv lib p b, log_call (Read_csv p) w))"

text \<open>\<^verbatim>\<open>df.to_parquet(p, index=...)\<close>: only the file at \<open>p\<close> changes.\<close>

definition to_parquet ::
    "('df, 'b) pandas \<Rightarrow> 'df \<Rightarrow> path \<Rightarrow> bool \<Rightarrow> (('df, 'b) world, unit) stmt" where
  "to_parquet lib df p index w = (case write_parquet lib df p index (files w p) of
       Wrote c \<Rightarrow>
         (Inr (), log_call (To_parquet df p index) (w\<lparr>files := (files w)(p \<mapsto> c)\<rparr>))
     | Write_failed e c \<Rightarrow>
         (Inl e, log_call (To_parquet df p index) (w\<lparr>files := (files w)(p := c)\<rparr>)))"

text \<open>
  \<^verbatim>\<open>print(s)\<close>: one line more on standard output, or an exception and no output; without
  a standard output stream \<^verbatim>\<open>print\<close> returns normally and nothing is written.
\<close>

definition print :: "('df, 'b) pandas \<Rightarrow> string \<Rightarrow> (('df, 'b) world, unit) stmt" where
  "print lib s w = (case emit lib s of
       Accepts \<Rightarrow> (Inr (), log_call (Print s) (w\<lparr>stdout := stdout w @ [s]\<rparr>))
     | Refuses e \<Rightarrow> (Inl e, log_call (Print s) w)
     | Absent \<Rightarrow> (Inr (), log_call (Print s) w))"

subsection \<open>The script\<close>

text \<open>
  The two paths are the Python literals \<^verbatim>\<open>"data\\sample.csv"\<close> and
  \<^verbatim>\<open>"data\\sample.parquet"\<close>, each with one backslash (character \<open>0x5C\<close>).  The message
  starts with U+2705, here its three UTF-8 bytes.
\<close>

definition input_path :: path where
  "input_path = ''data'' @ [CHR 0x5C] @ ''sample.csv''"

definition output_path :: path where
  "output_path = ''data'' @ [CHR 0x5C] @ ''sample.parquet''"

definition message :: string where
  "message = [CHR 0xE2, CHR 0x9C, CHR 0x85] @ '' Parquet file created successfully!''"

definition generate_parquet :: "('df, 'b) pandas \<Rightarrow> (('df, 'b) world, unit) stmt" where
  "generate_parquet lib =
     bind_exn (read_csv lib input_path) (\<lambda>df.
     bind_exn (to_parquet lib df output_path False) (\<lambda>_.
     print lib message))"

section \<open>The tool host: main.py\<close>

subsection \<open>The process the script runs in\<close>

text \<open>
  The server object owns the tool registry; the process has the two standard streams.
  \<open>steps\<close> is the log of what the script has done, in order: the modules it has imported
  and the server object it has called \<^verbatim>\<open>run\<close> on.  Imported code cannot see the log.
\<close>

record 'tool proc =
  registry :: "(string \<times> 'tool) list"
  std_out :: "string list"
  std_err :: "string list"

datatype 'm step =
    Import string
  | Run 'm

record ('m, 'tool) host =
  proc :: "'tool proc"
  steps :: "'m step list"

text \<open>
  A call into code outside the script returns a value, raises, or never returns (the
  server's \<^verbatim>\<open>run\<close> blocks until the process is ended from outside).
\<close>

datatype 'a outcome =
    Returns 'a
  | Raises exn
  | Blocks

definition bind_outcome ::
    "('w \<Rightarrow> 'a outcome \<times> 'w) \<Rightarrow> ('a \<Rightarrow> 'w \<Rightarrow> 'b outcome \<times> 'w) \<Rightarrow> 'w \<Rightarrow> 'b outcome \<times> 'w" where
  "bind_outcome m f w = (case m w of
       (Returns a, w') \<Rightarrow> f a w'
     | (Raises e, w') \<Rightarrow> (Raises e, w')
     | (Blocks, w') \<Rightarrow> (Blocks, w'))"

subsection \<open>The modules the script imports\<close>

text \<open>
  The modules \<^verbatim>\<open>server\<close>, \<^verbatim>\<open>tools.csv_tools\<close> and \<^verbatim>\<open>tools.parquet_tools\<close> and the
  server framework are outside the script; what executing each of them does to the process
  is a parameter.  \<open>server_module\<close> also yields the object bound to \<^verbatim>\<open>mcp\<close>,
  and \<open>mcp_run\<close> is that object's \<^verbatim>\<open>run\<close> method.
\<close>

record ('m, 'tool) collaborators =
  server_module :: "'tool proc \<Rightarrow> 'm outcome \<times> 'tool proc"
  csv_tools_module :: "'tool proc \<Rightarrow> unit outcome \<times> 'tool proc"
  parquet_tools_module :: "'tool proc \<Rightarrow> unit outcome \<times> 'tool proc"
  mcp_run :: "'m \<Rightarrow> 'tool proc \<Rightarrow> unit outcome \<times> 'tool proc"

text \<open>One step of the script: run outside code on the process and log the step.\<close>

definition perform ::
    "'m step \<Rightarrow> ('tool proc \<Rightarrow> 'a outcome \<times> 'tool proc) \<Rightarrow>
     ('m, 'tool) host \<Rightarrow> 'a outcome \<times> ('m, 'tool) host" where
  "perform s f h = (case f (proc h) of
       (r, p') \<Rightarrow> (r, \<lparr>proc = p', steps = steps h @ [s]\<rparr>))"

subsection \<open>The script\<close>

text \<open>\<open>name\<close> is the value of \<^verbatim>\<open>__name__\<close> under which the module is executed.\<close>

definition main ::
    "('m, 'tool) collaborators \<Rightarrow> string \<Rightarrow> ('m, 'tool) host \<Rightarrow> unit outcome \<times> ('m, 'tool) host" where
  "main env name =
     bind_outcome (perform (Import ''server'') (server_module env)) (\<lambda>mcp.
     bind_outcome (perform (Import ''tools.csv_tools'') (csv_tools_module env)) (\<lambda>_.
     bind_outcome (perform (Import ''tools.parquet_tools'') (parquet_tools_module env)) (\<lambda>_.
     if name = ''__main__'' then perform (Run mcp) (mcp_run env mcp)
     else (\<lambda>h. (Returns (), h)))))"

definition start :: "'tool proc \<Rightarrow> ('m, 'tool) host" where
  "start p = \<lparr>proc = p, steps = []\<rparr>"

section \<open>Sample worlds\<close>

text \<open>
  A library that takes the bytes of the file for the data frame and stores a data frame
  as it is, and a console that accepts every line; the same library in a process without
  standard output; libraries that fail at the first, the second or the third call of the
  script; a library that stamps each file it writes with the number of times the path was
  overwritten.
\<close>

definition plain_lib :: "(string, string) pandas" where
  "plain_lib = \<lparr>parse_csv = (\<lambda>p b. Inr b),
                write_parquet = (\<lambda>df p index old. Wrote df),
                emit = (\<lambda>s. Accepts)\<rparr>"


definition empty_world :: "(string, string) world" where
  "empty_world = \<lparr>files = Map.empty, stdout = [], calls = []\<rparr>"

definition sample_world :: "(string, string) world" where
  "sample_world = \<lparr>files = [input_path \<mapsto> ''a,b,c''], stdout = [], calls = []\<rparr>"

definition failing_lib :: "nat \<Rightarrow> (string, string) pandas" where
  "failing_lib k =
     \<lparr>parse_csv = (\<lambda>p b. if k = 0 then Inl ParserError else Inr b),
      write_parquet = (\<lambda>df p index old. if k = 1 then Write_failed OSError None else Wrote df),
      emit = (\<lambda>s. if k = 2 then Refuses (Exception ''UnicodeEncodeError'') else Accepts)\<rparr>"

definition stamped_lib :: "(string, string \<times> nat) pandas" where
  "stamped_lib =
     \<lparr>parse_csv = (\<lambda>p b. Inr (fst b)),
      write_parquet = (\<lambda>df p index old.
         Wrote (df, case old of None \<Rightarrow> 0 | Some b \<Rightarrow> Suc (snd b))),
      emit = (\<lambda>s. Accepts)\<rparr>"

definition stamped_world :: "(string, string \<times> nat) world" where
  "stamped_world = \<lparr>files = [input_path \<mapsto> (''a,b,c'', 0)], stdout = [], calls = []\<rparr>"

text \<open>
  Collaborators of the tool host: modules that register nothing, of which the one numbered
  \<open>k\<close> fails to import; modules that each register one tool; a server whose
  \<^verbatim>\<open>run\<close> raises.
\<close>

definition sample_env :: "nat \<Rightarrow> (string, nat) collaborators" where
  "sample_env k =
     \<lparr>server_module = (\<lambda>q. (if k = 0 then Raises ImportError else Returns ''mcp'', q)),
      csv_tools_module = (\<lambda>q. (if k = 1 then Raises ImportError else Returns (), q)),
      parquet_tools_module = (\<lambda>q. (if k = 2 then Raises ImportError else Returns (), q)),
      mcp_run = (\<lambda>m q. (Blocks, q\<lparr>std_out := std_out q @ [m]\<rparr>))\<rparr>"

definition idle_proc :: "nat proc" where
  "idle_proc = \<lparr>registry = [], std_out = [], std_err = []\<rparr>"

definition registering_env :: "(string, nat) collaborators" where
  "registering_env =
     \<lparr>server_module = (\<lambda>q. (Returns ''mcp'', q)),
      csv_tools_module = (\<lambda>q. (Returns (), q\<lparr>registry := registry q @ [(''read_csv'', 1)]\<rparr>)),
      parquet_tools_module =
        (\<lambda>q. (Returns (), q\<lparr>registry := registry q @ [(''read_parquet'', 2)]\<rparr>)),
      mcp_run = (\<lambda>m q. (Blocks, q\<lparr>std_out := std_out q @ [m]\<rparr>))\<rparr>"

definition raising_env :: "(string, nat) collaborators" where
  "raising_env =
     \<lparr>server_module = (\<lambda>q. (Returns ''mcp'', q)),
      csv_tools_module = (\<lambda>q. (Returns (), q)),
      parquet_tools_module = (\<lambda>q. (Returns (), q)),
      mcp_run = (\<lambda>m q. (Raises OSError, q))\<rparr>"

section \<open>Properties of the converter\<close>

lemma input_neq_output: "input_path \<noteq> output_path"
  by (simp add: input_path_def output_path_def)

lemma calls_log_call: "calls (log_call c w) = calls w @ [c]"
  by (simp add: log_call_def)

lemma files_log_call: "files (log_call c w) = files w"
  by (simp add: log_call_def)

lemma stdout_log_call: "stdout (log_call c w) = stdout w"
  by (simp add: log_call_def)

lemma files_generate_parquet:
  "p \<noteq> output_path \<Longrightarrow> files (snd (generate_parquet lib w)) p = files w p"
  by (simp add: generate_parquet_def bind_exn_def read_csv_def to_parquet_def print_def
      log_call_def split: option.splits sum.splits written.splits prod.splits console.splits)



lemma output_generate_parquet_ok:
  "fst (generate_parquet lib w) = Inr () \<Longrightarrow>
   \<exists>b df c. files w input_path = Some b \<and> parse_csv lib input_path b = Inr df
     \<and> write_parquet lib df output_path False (files w output_path) = Wrote c
     \<and> (emit lib message = Accepts \<or> emit lib message = Absent)
     \<and> files (snd (generate_parquet lib w)) output_path = Some c
     \<and> files (snd (generate_parquet lib w)) = (files w)(output_path \<mapsto> c)
     \<and> calls (snd (generate_parquet lib w)) = calls w @ [Read_csv input_path, To_parquet df output_path False, Print message]"
  by (auto simp add: generate_parquet_def bind_exn_def read_csv_def to_parquet_def print_def
      log_call_def split: option.splits sum.splits written.splits prod.splits console.splits)

text \<open>
  C2.  When no file exists at the input path, the converter ends with
  \<^verbatim>\<open>FileNotFoundError\<close>; the only library call it has made is the read, so no write was
  attempted, and the file system (the output path with it) and standard output are as
  they were.
\<close>

theorem missing_input_fails_before_write:
  assumes "files w input_path = None"
  shows "fst (generate_parquet lib w) = Inl FileNotFoundError
       \<and> calls (snd (generate_parquet lib w)) = calls w @ [Read_csv input_path]
       \<and> files (snd (generate_parquet lib w)) = files w
       \<and> stdout (snd (generate_parquet lib w)) = stdout w"
  using assms
  by (simp add: generate_parquet_def bind_exn_def read_csv_def
      calls_log_call files_log_call stdout_log_call)

theorem missing_input_fails_before_write_witness:
  "files empty_world input_path = None
   \<and> fst (generate_parquet plain_lib empty_world) = Inl FileNotFoundError
   \<and> calls (snd (generate_parquet plain_lib empty_world)) = [Read_csv input_path]
   \<and> files (snd (generate_parquet plain_lib empty_world)) = Map.empty
   \<and> stdout (snd (generate_parquet plain_lib empty_world)) = []"
proof -
  have h: "files empty_world input_path = None"
    by (simp add: empty_world_def)
  show ?thesis
    using h missing_input_fails_before_write [OF h, of plain_lib]
    by (simp add: empty_world_def)
qed

text \<open>
  C10.  Whatever the library does and however the run ends, the file at the input
  path is afterwards what it was before, every file other than the one at the output path
  is unchanged, and every \<^verbatim>\<open>to_parquet\<close> call the run adds to the log names the output
  path.
\<close>

theorem input_only_read:
  "files (snd (generate_parquet lib w)) input_path = files w input_path
   \<and> (\<forall>p. p \<noteq> output_path \<longrightarrow> files (snd (generate_parquet lib w)) p = files w p)
   \<and> (\<forall>df p i. To_parquet df p i \<in> set (calls (snd (generate_parquet lib w)))
          \<longrightarrow> To_parquet df p i \<in> set (calls w) \<or> p = output_path)"
proof (intro conjI allI impI)
  show "files (snd (generate_parquet lib w)) input_path = files w input_path"
    using input_neq_output by (rule files_generate_parquet)
next
  fix p :: path
  assume "p \<noteq> output_path"
  then show "files (snd (generate_parquet lib w)) p = files w p"
    by (rule files_generate_parquet)
next
  fix df p i
  assume "To_parquet df p i \<in> set (calls (snd (generate_parquet lib w)))"
  then show "To_parquet df p i \<in> set (calls w) \<or> p = output_path"
    by (auto simp add: generate_parquet_def bind_exn_def read_csv_def to_parquet_def print_def
        log_call_def split: option.splits sum.splits written.splits prod.splits console.splits)
qed

theorem input_only_read_witness:
  "files (snd (generate_parquet plain_lib sample_world)) input_path = Some ''a,b,c''
   \<and> files (snd (generate_parquet plain_lib empty_world)) input_path = None
   \<and> input_path \<noteq> output_path
   \<and> To_parquet ''a,b,c'' output_path False
        \<in> set (calls (snd (generate_parquet plain_lib sample_world)))"
  using input_only_read [of plain_lib sample_world]
    input_only_read [of plain_lib empty_world] input_neq_output
  by (simp add: sample_world_def empty_world_def plain_lib_def generate_parquet_def
      bind_exn_def read_csv_def to_parquet_def print_def log_call_def)




text \<open>
  C8.  Running the converter twice in succession leaves an output file from which the
  same table is read back as after the first run, although the bytes may differ.  How the
  file is read back is the library's affair (the script never reads it): the reader
  \<open>read_back\<close> is any function that returns the same table for two files the writer
  produced from one data frame, whatever was at the path before.  What the script adds is
  that the second run parses the same input, untouched by the first, and hands the same data
  frame to the writer.
\<close>

theorem rerun_reads_back_same_table:
  assumes same: "\<forall>df old old' c c'.
        write_parquet lib df output_path False old = Wrote c \<longrightarrow>
        write_parquet lib df output_path False old' = Wrote c' \<longrightarrow>
        read_back c = read_back c'"
    and first: "generate_parquet lib w = (Inr (), w1)"
    and second: "generate_parquet lib w1 = (Inr (), w2)"
  shows "files w1 output_path \<noteq> None
       \<and> map_option read_back (files w2 output_path)
           = map_option read_back (files w1 output_path)"
proof -
  from first have f1: "fst (generate_parquet lib w) = Inr ()"
    and s1: "snd (generate_parquet lib w) = w1" by simp_all
  from second have f2: "fst (generate_parquet lib w1) = Inr ()"
    and s2: "snd (generate_parquet lib w1) = w2" by simp_all
  from output_generate_parquet_ok [OF f1] s1 obtain b df c where
    in1: "files w input_path = Some b" and p1: "parse_csv lib input_path b = Inr df"
    and wr1: "write_parquet lib df output_path False (files w output_path) = Wrote c"
    and out1: "files w1 output_path = Some c" by auto
  from output_generate_parquet_ok [OF f2] s2 obtain b' df' c' where
    in2: "files w1 input_path = Some b'" and p2: "parse_csv lib input_path b' = Inr df'"
    and wr2: "write_parquet lib df' output_path False (files w1 output_path) = Wrote c'"
    and out2: "files w2 output_path = Some c'" by auto
  have "files w1 input_path = files w input_path"
    using files_generate_parquet [OF input_neq_output, of lib w] s1 by simp
  with in1 in2 have "b' = b" by simp
  with p1 p2 have "df' = df" by simp
  with same wr1 wr2 have "read_back c' = read_back c" by blast
  with out1 out2 show ?thesis by simp
qed

theorem rerun_reads_back_same_table_witness:
  "files (snd (generate_parquet stamped_lib stamped_world)) output_path = Some (''a,b,c'', 0)
   \<and> files (snd (generate_parquet stamped_lib
         (snd (generate_parquet stamped_lib stamped_world)))) output_path = Some (''a,b,c'', 1)
   \<and> map_option fst (files (snd (generate_parquet stamped_lib
         (snd (generate_parquet stamped_lib stamped_world)))) output_path)
       = map_option fst (files (snd (generate_parquet stamped_lib stamped_world)) output_path)"
proof -
  let ?w1 = "snd (generate_parquet stamped_lib stamped_world)"
  let ?w2 = "snd (generate_parquet stamped_lib ?w1)"
  have same: "\<forall>df old old' c c'.
        write_parquet stamped_lib df output_path False old = Wrote c \<longrightarrow>
        write_parquet stamped_lib df output_path False old' = Wrote c' \<longrightarrow>
        fst c = fst c'"
    by (auto simp add: stamped_lib_def)
  have in_out: "output_path \<noteq> input_path"
    using input_neq_output by simp
  have r1: "generate_parquet stamped_lib stamped_world =
      (Inr (), \<lparr>files = [input_path \<mapsto> (''a,b,c'', 0), output_path \<mapsto> (''a,b,c'', 0)],
         stdout = [message],
         calls = [Read_csv input_path, To_parquet ''a,b,c'' output_path False,
           Print message]\<rparr>)"
    using in_out
    by (simp add: stamped_world_def stamped_lib_def generate_parquet_def
        bind_exn_def read_csv_def to_parquet_def print_def log_call_def)
  have o1: "files ?w1 output_path = Some (''a,b,c'', 0)"
    by (simp add: r1)
  have r2: "generate_parquet stamped_lib
        \<lparr>files = [input_path \<mapsto> (''a,b,c'', 0), output_path \<mapsto> (''a,b,c'', 0)],
         stdout = [message],
         calls = [Read_csv input_path, To_parquet ''a,b,c'' output_path False,
           Print message]\<rparr> =
      (Inr (), \<lparr>files = [input_path \<mapsto> (''a,b,c'', 0), output_path \<mapsto> (''a,b,c'', 1)],
         stdout = [message, message],
         calls = [Read_csv input_path, To_parquet ''a,b,c'' output_path False,
           Print message, Read_csv input_path, To_parquet ''a,b,c'' output_path False,
           Print message]\<rparr>)"
    using in_out
    by (simp add: stamped_lib_def generate_parquet_def
        bind_exn_def read_csv_def to_parquet_def print_def log_call_def)
  have o2: "files ?w2 output_path = Some (''a,b,c'', 1)"
    by (simp add: r1 r2)
  have e1: "generate_parquet stamped_lib stamped_world = (Inr (), ?w1)"
    by (simp add: r1)
  have e2: "generate_parquet stamped_lib ?w1 = (Inr (), ?w2)"
    by (simp add: r1 r2)
  note t = rerun_reads_back_same_table [of stamped_lib fst stamped_world ?w1 ?w2,
      OF same e1 e2]
  from o1 o2 t show ?thesis by simp
qed

section \<open>Properties of the tool host\<close>

lemma main_stops_at_server:
  "server_module env p = (Raises e, p1) \<Longrightarrow>
   main env name (start p) = (Raises e, \<lparr>proc = p1, steps = [Import ''server'']\<rparr>)"
  by (simp add: main_def bind_outcome_def perform_def start_def)

lemma main_stops_at_csv_tools:
  "server_module env p = (Returns m, p1) \<Longrightarrow> csv_tools_module env p1 = (Raises e, p2) \<Longrightarrow>
   main env name (start p) =
     (Raises e, \<lparr>proc = p2, steps = [Import ''server'', Import ''tools.csv_tools'']\<rparr>)"
  by (simp add: main_def bind_outcome_def perform_def start_def)

lemma main_stops_at_parquet_tools:
  "server_module env p = (Returns m, p1) \<Longrightarrow> csv_tools_module env p1 = (Returns (), p2) \<Longrightarrow>
   parquet_tools_module env p2 = (Raises e, p3) \<Longrightarrow>
   main env name (start p) =
     (Raises e, \<lparr>proc = p3, steps = [Import ''server'', Import ''tools.csv_tools'',
        Import ''tools.parquet_tools'']\<rparr>)"
  by (simp add: main_def bind_outcome_def perform_def start_def)

lemma main_as_program:
  "server_module env p = (Returns m, p1) \<Longrightarrow> csv_tools_module env p1 = (Returns (), p2) \<Longrightarrow>
   parquet_tools_module env p2 = (Returns (), p3) \<Longrightarrow>
   main env ''__main__'' (start p) =
     (fst (mcp_run env m p3), \<lparr>proc = snd (mcp_run env m p3),
        steps = [Import ''server'', Import ''tools.csv_tools'',
          Import ''tools.parquet_tools'', Run m]\<rparr>)"
  by (simp add: main_def bind_outcome_def perform_def start_def split: prod.splits)

lemma main_as_module:
  "server_module env p = (Returns m, p1) \<Longrightarrow> csv_tools_module env p1 = (Returns (), p2) \<Longrightarrow>
   parquet_tools_module env p2 = (Returns (), p3) \<Longrightarrow> name \<noteq> ''__main__'' \<Longrightarrow>
   main env name (start p) =
     (Returns (), \<lparr>proc = p3, steps = [Import ''server'', Import ''tools.csv_tools'',
          Import ''tools.parquet_tools'']\<rparr>)"
  by (simp add: main_def bind_outcome_def perform_def start_def split: prod.splits)

lemma run_logged:
  assumes "Run m \<in> set (steps (snd (main env name (start p))))"
  shows "name = ''__main__'' \<and> (\<exists>p1 p2 p3. server_module env p = (Returns m, p1)
       \<and> csv_tools_module env p1 = (Returns (), p2)
       \<and> parquet_tools_module env p2 = (Returns (), p3))"
  using assms
  by (auto simp add: main_def bind_outcome_def perform_def start_def
      split: prod.splits outcome.splits if_splits)

lemma steps_in_order:
  "(\<exists>rest. steps (snd (main env name (start p))) @ rest =
       [Import ''server'', Import ''tools.csv_tools'', Import ''tools.parquet_tools''])
   \<or> (\<exists>m. steps (snd (main env name (start p))) =
       [Import ''server'', Import ''tools.csv_tools'', Import ''tools.parquet_tools'', Run m])"
  by (auto simp add: main_def bind_outcome_def perform_def start_def
      split: prod.splits outcome.splits if_splits)

lemma main_final_proc:
  "((\<forall>m. Run m \<notin> set (steps (snd (main env name (start p))))) \<longrightarrow>
      proc (snd (main env name (start p))) = snd (server_module env p)
      \<or> proc (snd (main env name (start p))) =
          snd (csv_tools_module env (snd (server_module env p)))
      \<or> proc (snd (main env name (start p))) =
          snd (parquet_tools_module env (snd (csv_tools_module env (snd (server_module env p))))))
   \<and> (\<forall>m. Run m \<in> set (steps (snd (main env name (start p)))) \<longrightarrow>
      proc (snd (main env name (start p))) =
        snd (mcp_run env m
          (snd (parquet_tools_module env (snd (csv_tools_module env (snd (server_module env p))))))))"
  by (auto simp add: main_def bind_outcome_def perform_def start_def
      split: prod.splits outcome.splits if_splits)

text \<open>
  C5.  In every start of the tool host the logged steps are an initial part of: import
  \<^verbatim>\<open>server\<close>, import \<^verbatim>\<open>tools.csv_tools\<close>, import \<^verbatim>\<open>tools.parquet_tools\<close>, call
  \<^verbatim>\<open>run\<close>.  If \<^verbatim>\<open>run\<close> was called, all three imports had returned before, and it was
  called on the object the server module supplied.  Executed as the main program with all
  three imports returning, the script does call \<^verbatim>\<open>run\<close>, in the process state the imports
  left, whatever the registry holds then (the witness has an empty one).
\<close>

theorem startup_order:
  "((\<exists>rest. steps (snd (main env name (start p))) @ rest =
        [Import ''server'', Import ''tools.csv_tools'', Import ''tools.parquet_tools''])
     \<or> (\<exists>m. steps (snd (main env name (start p))) =
        [Import ''server'', Import ''tools.csv_tools'', Import ''tools.parquet_tools'', Run m]))
   \<and> (\<forall>m. Run m \<in> set (steps (snd (main env name (start p)))) \<longrightarrow>
        (\<exists>p1 p2 p3. server_module env p = (Returns m, p1)
           \<and> csv_tools_module env p1 = (Returns (), p2)
           \<and> parquet_tools_module env p2 = (Returns (), p3)))
   \<and> (\<forall>m p1 p2 p3. server_module env p = (Returns m, p1) \<longrightarrow>
        csv_tools_module env p1 = (Returns (), p2) \<longrightarrow>
        parquet_tools_module env p2 = (Returns (), p3) \<longrightarrow>
        main env ''__main__'' (start p) =
          (fst (mcp_run env m p3), \<lparr>proc = snd (mcp_run env m p3),
             steps = [Import ''server'', Import ''tools.csv_tools'',
               Import ''tools.parquet_tools'', Run m]\<rparr>))"
proof (intro conjI allI impI)
  show "(\<exists>rest. steps (snd (main env name (start p))) @ rest =
        [Import ''server'', Import ''tools.csv_tools'', Import ''tools.parquet_tools''])
     \<or> (\<exists>m. steps (snd (main env name (start p))) =
        [Import ''server'', Import ''tools.csv_tools'', Import ''tools.parquet_tools'', Run m])"
    by (rule steps_in_order)
next
  fix m
  assume "Run m \<in> set (steps (snd (main env name (start p))))"
  then show "\<exists>p1 p2 p3. server_module env p = (Returns m, p1)
           \<and> csv_tools_module env p1 = (Returns (), p2)
           \<and> parquet_tools_module env p2 = (Returns (), p3)"
    by (rule run_logged [THEN conjunct2])
next
  fix m p1 p2 p3
  assume "server_module env p = (Returns m, p1)" "csv_tools_module env p1 = (Returns (), p2)"
    "parquet_tools_module env p2 = (Returns (), p3)"
  then show "main env ''__main__'' (start p) =
          (fst (mcp_run env m p3), \<lparr>proc = snd (mcp_run env m p3),
             steps = [Import ''server'', Import ''tools.csv_tools'',
               Import ''tools.parquet_tools'', Run m]\<rparr>)"
    by (rule main_as_program)
qed

theorem startup_order_witness:
  "registry idle_proc = []
   \<and> server_module (sample_env 3) idle_proc = (Returns ''mcp'', idle_proc)
   \<and> csv_tools_module (sample_env 3) idle_proc = (Returns (), idle_proc)
   \<and> parquet_tools_module (sample_env 3) idle_proc = (Returns (), idle_proc)
   \<and> Run ''mcp'' \<in> set (steps (snd (main (sample_env 3) ''__main__'' (start idle_proc))))
   \<and> main (sample_env 3) ''__main__'' (start idle_proc) =
       (Blocks, \<lparr>proc = idle_proc\<lparr>std_out := [''mcp'']\<rparr>,
          steps = [Import ''server'', Import ''tools.csv_tools'',
            Import ''tools.parquet_tools'', Run ''mcp'']\<rparr>)"
proof -
  have s: "server_module (sample_env 3) idle_proc = (Returns ''mcp'', idle_proc)"
    and c: "csv_tools_module (sample_env 3) idle_proc = (Returns (), idle_proc)"
    and q: "parquet_tools_module (sample_env 3) idle_proc = (Returns (), idle_proc)"
    by (simp_all add: sample_env_def)
  have r: "mcp_run (sample_env 3) ''mcp'' idle_proc = (Blocks, idle_proc\<lparr>std_out := [''mcp'']\<rparr>)"
    by (simp add: sample_env_def idle_proc_def)
  note m = startup_order [of "sample_env 3" "''__main__''" idle_proc,
      THEN conjunct2, THEN conjunct2, rule_format, OF s c q]
  from m r s c q show ?thesis by (simp add: idle_proc_def)
qed

text \<open>
  C6.  When the import of the server module or of one of the two tool modules raises,
  the script ends with that exception and \<^verbatim>\<open>run\<close> is never called.
\<close>

theorem import_failure_is_fatal:
  assumes "fst (server_module env p) = Raises e
     \<or> (\<exists>m p1. server_module env p = (Returns m, p1)
           \<and> fst (csv_tools_module env p1) = Raises e)
     \<or> (\<exists>m p1 p2. server_module env p = (Returns m, p1)
           \<and> csv_tools_module env p1 = (Returns (), p2)
           \<and> fst (parquet_tools_module env p2) = Raises e)"
  shows "fst (main env name (start p)) = Raises e
       \<and> (\<forall>m. Run m \<notin> set (steps (snd (main env name (start p)))))"
  using assms
  by (auto simp add: main_def bind_outcome_def perform_def start_def
      split: prod.splits outcome.splits)

theorem import_failure_is_fatal_witness:
  "fst (server_module (sample_env 0) idle_proc) = Raises ImportError
   \<and> main (sample_env 0) ''__main__'' (start idle_proc) =
       (Raises ImportError, \<lparr>proc = idle_proc, steps = [Import ''server'']\<rparr>)
   \<and> fst (main (sample_env 1) ''__main__'' (start idle_proc)) = Raises ImportError
   \<and> Run ''mcp'' \<notin> set (steps (snd (main (sample_env 1) ''__main__'' (start idle_proc))))
   \<and> fst (main (sample_env 2) ''__main__'' (start idle_proc)) = Raises ImportError
   \<and> Run ''mcp'' \<notin> set (steps (snd (main (sample_env 2) ''__main__'' (start idle_proc))))"
proof -
  have h0: "fst (server_module (sample_env 0) idle_proc) = Raises ImportError"
    by (simp add: sample_env_def)
  have h1: "\<exists>m p1. server_module (sample_env 1) idle_proc = (Returns m, p1)
           \<and> fst (csv_tools_module (sample_env 1) p1) = Raises ImportError"
    by (simp add: sample_env_def)
  have h2: "\<exists>m p1 p2. server_module (sample_env 2) idle_proc = (Returns m, p1)
           \<and> csv_tools_module (sample_env 2) p1 = (Returns (), p2)
           \<and> fst (parquet_tools_module (sample_env 2) p2) = Raises ImportError"
    by (simp add: sample_env_def)
  have m0: "main (sample_env 0) ''__main__'' (start idle_proc) =
       (Raises ImportError, \<lparr>proc = idle_proc, steps = [Import ''server'']\<rparr>)"
    by (simp add: main_def bind_outcome_def perform_def start_def sample_env_def)
  note f0 = import_failure_is_fatal [of "sample_env 0" idle_proc ImportError "''__main__''",
      OF disjI1, OF h0]
  note f1 = import_failure_is_fatal [of "sample_env 1" idle_proc ImportError "''__main__''",
      OF disjI2, OF disjI1, OF h1]
  note f2 = import_failure_is_fatal [of "sample_env 2" idle_proc ImportError "''__main__''",
      OF disjI2, OF disjI2, OF h2]
  from h0 m0 f0 f1 f2 show ?thesis by simp
qed

text \<open>
  C9.  \<^verbatim>\<open>run\<close> is only ever called when \<^verbatim>\<open>__name__\<close> is \<^verbatim>\<open>"__main__"\<close>.  Under any
  other name the script, its imports returning, ends normally after the three imports in
  the process state they left (their registrations included), without a call of
  \<^verbatim>\<open>run\<close>; under the name \<^verbatim>\<open>"__main__"\<close> it calls \<^verbatim>\<open>run\<close>.
\<close>

theorem run_only_as_main_program:
  "(\<forall>m. Run m \<in> set (steps (snd (main env name (start p)))) \<longrightarrow> name = ''__main__'')
   \<and> (\<forall>m p1 p2 p3. server_module env p = (Returns m, p1) \<longrightarrow>
        csv_tools_module env p1 = (Returns (), p2) \<longrightarrow>
        parquet_tools_module env p2 = (Returns (), p3) \<longrightarrow>
        (name \<noteq> ''__main__'' \<longrightarrow>
           main env name (start p) =
             (Returns (), \<lparr>proc = p3, steps = [Import ''server'', Import ''tools.csv_tools'',
                Import ''tools.parquet_tools'']\<rparr>))
        \<and> Run m \<in> set (steps (snd (main env ''__main__'' (start p)))))"
proof (intro conjI allI impI)
  fix m
  assume "Run m \<in> set (steps (snd (main env name (start p))))"
  then show "name = ''__main__''"
    by (rule run_logged [THEN conjunct1])
next
  fix m p1 p2 p3
  assume "server_module env p = (Returns m, p1)" "csv_tools_module env p1 = (Returns (), p2)"
    "parquet_tools_module env p2 = (Returns (), p3)" "name \<noteq> ''__main__''"
  then show "main env name (start p) =
             (Returns (), \<lparr>proc = p3, steps = [Import ''server'', Import ''tools.csv_tools'',
                Import ''tools.parquet_tools'']\<rparr>)"
    by (rule main_as_module)
next
  fix m p1 p2 p3
  assume "server_module env p = (Returns m, p1)" "csv_tools_module env p1 = (Returns (), p2)"
    "parquet_tools_module env p2 = (Returns (), p3)"
  then show "Run m \<in> set (steps (snd (main env ''__main__'' (start p))))"
    by (simp add: main_as_program)
qed

theorem run_only_as_main_program_witness:
  "main registering_env ''main'' (start idle_proc) =
     (Returns (), \<lparr>proc = idle_proc\<lparr>registry := [(''read_csv'', 1), (''read_parquet'', 2)]\<rparr>,
        steps = [Import ''server'', Import ''tools.csv_tools'',
          Import ''tools.parquet_tools'']\<rparr>)
   \<and> Run ''mcp'' \<notin> set (steps (snd (main registering_env ''main'' (start idle_proc))))
   \<and> Run ''mcp'' \<in> set (steps (snd (main registering_env ''__main__'' (start idle_proc))))"
proof -
  let ?p2 = "idle_proc\<lparr>registry := [(''read_csv'', 1)]\<rparr>"
  let ?p3 = "idle_proc\<lparr>registry := [(''read_csv'', 1), (''read_parquet'', 2)]\<rparr>"
  have s: "server_module registering_env idle_proc = (Returns ''mcp'', idle_proc)"
    by (simp add: registering_env_def)
  have c: "csv_tools_module registering_env idle_proc = (Returns (), ?p2)"
    by (simp add: registering_env_def idle_proc_def)
  have q: "parquet_tools_module registering_env ?p2 = (Returns (), ?p3)"
    by (simp add: registering_env_def idle_proc_def)
  have n: "''main'' \<noteq> ''__main__''"
    by simp
  note t = run_only_as_main_program [of registering_env "''main''" idle_proc]
  note a = t [THEN conjunct2, rule_format, OF s c q, THEN conjunct1, rule_format, OF n]
  note b = t [THEN conjunct2, rule_format, OF s c q, THEN conjunct2]
  from a b show ?thesis by simp
qed

text \<open>
  C7.  When the imported modules leave the two standard streams as they find them
  (normal operation: they only register tools), the script adds nothing of its own: if
  \<^verbatim>\<open>run\<close> is not called the streams end as they began; if it is called, it is called in a
  state whose streams are as they began, and the final state is the one \<^verbatim>\<open>run\<close> left, so
  whatever is on the streams was written by the server.
\<close>

theorem entry_point_writes_nothing:
  assumes server: "\<forall>q. std_out (snd (server_module env q)) = std_out q
        \<and> std_err (snd (server_module env q)) = std_err q"
    and csv: "\<forall>q. std_out (snd (csv_tools_module env q)) = std_out q
        \<and> std_err (snd (csv_tools_module env q)) = std_err q"
    and parquet: "\<forall>q. std_out (snd (parquet_tools_module env q)) = std_out q
        \<and> std_err (snd (parquet_tools_module env q)) = std_err q"
  shows "((\<forall>m. Run m \<notin> set (steps (snd (main env name (start p))))) \<longrightarrow>
           std_out (proc (snd (main env name (start p)))) = std_out p
           \<and> std_err (proc (snd (main env name (start p)))) = std_err p)
       \<and> (\<forall>m. Run m \<in> set (steps (snd (main env name (start p)))) \<longrightarrow>
           (\<exists>q. std_out q = std_out p \<and> std_err q = std_err p
              \<and> proc (snd (main env name (start p))) = snd (mcp_run env m q)))"
proof -
  let ?p1 = "snd (server_module env p)"
  let ?p2 = "snd (csv_tools_module env ?p1)"
  let ?p3 = "snd (parquet_tools_module env ?p2)"
  have q1: "std_out ?p1 = std_out p \<and> std_err ?p1 = std_err p"
    using server by simp
  have q2: "std_out ?p2 = std_out p \<and> std_err ?p2 = std_err p"
    using csv q1 by simp
  have q3: "std_out ?p3 = std_out p \<and> std_err ?p3 = std_err p"
    using parquet q2 by simp
  show ?thesis
  proof (intro conjI allI impI)
    assume "\<forall>m. Run m \<notin> set (steps (snd (main env name (start p))))"
    with main_final_proc [of env name p]
    have "proc (snd (main env name (start p))) = ?p1
        \<or> proc (snd (main env name (start p))) = ?p2
        \<or> proc (snd (main env name (start p))) = ?p3"
      by simp
    with q1 q2 q3 show "std_out (proc (snd (main env name (start p)))) = std_out p"
      and "std_err (proc (snd (main env name (start p)))) = std_err p"
      by auto
  next
    fix m
    assume "Run m \<in> set (steps (snd (main env name (start p))))"
    with main_final_proc [of env name p]
    have "proc (snd (main env name (start p))) = snd (mcp_run env m ?p3)"
      by simp
    with q3 show "\<exists>q. std_out q = std_out p \<and> std_err q = std_err p
              \<and> proc (snd (main env name (start p))) = snd (mcp_run env m q)"
      by (intro exI [of _ ?p3]) simp
  qed
qed

theorem entry_point_writes_nothing_witness:
  "std_out (proc (snd (main (sample_env 3) ''main'' (start idle_proc)))) = []
   \<and> std_err (proc (snd (main (sample_env 3) ''main'' (start idle_proc)))) = []
   \<and> Run ''mcp'' \<in> set (steps (snd (main (sample_env 3) ''__main__'' (start idle_proc))))
   \<and> (\<exists>q. std_out q = [] \<and> std_err q = []
        \<and> proc (snd (main (sample_env 3) ''__main__'' (start idle_proc)))
            = snd (mcp_run (sample_env 3) ''mcp'' q))"
proof -
  have server: "\<forall>q. std_out (snd (server_module (sample_env 3) q)) = std_out q
        \<and> std_err (snd (server_module (sample_env 3) q)) = std_err q"
    and csv: "\<forall>q. std_out (snd (csv_tools_module (sample_env 3) q)) = std_out q
        \<and> std_err (snd (csv_tools_module (sample_env 3) q)) = std_err q"
    and parquet: "\<forall>q. std_out (snd (parquet_tools_module (sample_env 3) q)) = std_out q
        \<and> std_err (snd (parquet_tools_module (sample_env 3) q)) = std_err q"
    by (simp_all add: sample_env_def)
  have quiet: "\<forall>m. Run m \<notin> set (steps (snd (main (sample_env 3) ''main'' (start idle_proc))))"
    by (simp add: main_def bind_outcome_def perform_def start_def sample_env_def)
  have run: "Run ''mcp'' \<in> set (steps (snd (main (sample_env 3) ''__main__'' (start idle_proc))))"
    by (simp add: main_def bind_outcome_def perform_def start_def sample_env_def)
  note a = entry_point_writes_nothing [of "sample_env 3" "''main''" idle_proc,
      OF server csv parquet, THEN conjunct1, THEN mp, OF quiet]
  note b = entry_point_writes_nothing [of "sample_env 3" "''__main__''" idle_proc,
      OF server csv parquet, THEN conjunct2, rule_format, OF run]
  from a b run show ?thesis by (simp add: idle_proc_def)
qed

section \<open>Exceptions in both scripts\<close>

text \<open>
  C3.  An exception raised by any call of either script ends the script with that very
  exception, and the failing call is the last entry of the log, entered once: nothing
  catches, replaces or repeats it.  For the converter the calls are the read (missing file
  or unparseable content), the write and the print; for the tool host the three imports
  and \<^verbatim>\<open>run\<close>.
\<close>

theorem errors_propagate:
  "(files w input_path = None \<longrightarrow>
      fst (generate_parquet lib w) = Inl FileNotFoundError
      \<and> calls (snd (generate_parquet lib w)) = calls w @ [Read_csv input_path])
   \<and> (\<forall>b e. files w input_path = Some b \<longrightarrow> parse_csv lib input_path b = Inl e \<longrightarrow>
      fst (generate_parquet lib w) = Inl e
      \<and> calls (snd (generate_parquet lib w)) = calls w @ [Read_csv input_path])
   \<and> (\<forall>b df e c. files w input_path = Some b \<longrightarrow> parse_csv lib input_path b = Inr df \<longrightarrow>
      write_parquet lib df output_path False (files w output_path) = Write_failed e c \<longrightarrow>
      fst (generate_parquet lib w) = Inl e
      \<and> calls (snd (generate_parquet lib w)) =
          calls w @ [Read_csv input_path, To_parquet df output_path False])
   \<and> (\<forall>b df c e. files w input_path = Some b \<longrightarrow> parse_csv lib input_path b = Inr df \<longrightarrow>
      write_parquet lib df output_path False (files w output_path) = Wrote c \<longrightarrow>
      emit lib message = Refuses e \<longrightarrow>
      fst (generate_parquet lib w) = Inl e
      \<and> calls (snd (generate_parquet lib w)) =
          calls w @ [Read_csv input_path, To_parquet df output_path False, Print message])
   \<and> (\<forall>e p1. server_module env p = (Raises e, p1) \<longrightarrow>
      main env name (start p) = (Raises e, \<lparr>proc = p1, steps = [Import ''server'']\<rparr>))
   \<and> (\<forall>m e p1 p2. server_module env p = (Returns m, p1) \<longrightarrow>
      csv_tools_module env p1 = (Raises e, p2) \<longrightarrow>
      main env name (start p) =
        (Raises e, \<lparr>proc = p2, steps = [Import ''server'', Import ''tools.csv_tools'']\<rparr>))
   \<and> (\<forall>m e p1 p2 p3. server_module env p = (Returns m, p1) \<longrightarrow>
      csv_tools_module env p1 = (Returns (), p2) \<longrightarrow>
      parquet_tools_module env p2 = (Raises e, p3) \<longrightarrow>
      main env name (start p) =
        (Raises e, \<lparr>proc = p3, steps = [Import ''server'', Import ''tools.csv_tools'',
           Import ''tools.parquet_tools'']\<rparr>))
   \<and> (\<forall>m e p1 p2 p3 p4. server_module env p = (Returns m, p1) \<longrightarrow>
      csv_tools_module env p1 = (Returns (), p2) \<longrightarrow>
      parquet_tools_module env p2 = (Returns (), p3) \<longrightarrow>
      mcp_run env m p3 = (Raises e, p4) \<longrightarrow>
      main env ''__main__'' (start p) =
        (Raises e, \<lparr>proc = p4, steps = [Import ''server'', Import ''tools.csv_tools'',
           Import ''tools.parquet_tools'', Run m]\<rparr>))"
proof (intro conjI allI impI)
  assume "files w input_path = None"
  then show "fst (generate_parquet lib w) = Inl FileNotFoundError"
    and "calls (snd (generate_parquet lib w)) = calls w @ [Read_csv input_path]"
    by (simp_all add: generate_parquet_def bind_exn_def read_csv_def log_call_def)
next
  fix b e
  assume "files w input_path = Some b" "parse_csv lib input_path b = Inl e"
  then show "fst (generate_parquet lib w) = Inl e"
    and "calls (snd (generate_parquet lib w)) = calls w @ [Read_csv input_path]"
    by (simp_all add: generate_parquet_def bind_exn_def read_csv_def log_call_def)
next
  fix b df e c
  assume "files w input_path = Some b" "parse_csv lib input_path b = Inr df"
    "write_parquet lib df output_path False (files w output_path) = Write_failed e c"
  then show "fst (generate_parquet lib w) = Inl e"
    and "calls (snd (generate_parquet lib w)) =
          calls w @ [Read_csv input_path, To_parquet df output_path False]"
    by (simp_all add: generate_parquet_def bind_exn_def read_csv_def to_parquet_def
        log_call_def)
next
  fix b df c e
  assume "files w input_path = Some b" "parse_csv lib input_path b = Inr df"
    "write_parquet lib df output_path False (files w output_path) = Wrote c"
    "emit lib message = Refuses e"
  then show "fst (generate_parquet lib w) = Inl e"
    and "calls (snd (generate_parquet lib w)) =
          calls w @ [Read_csv input_path, To_parquet df output_path False, Print message]"
    by (simp_all add: generate_parquet_def bind_exn_def read_csv_def to_parquet_def
        print_def log_call_def)
next
  fix e p1
  assume "server_module env p = (Raises e, p1)"
  then show "main env name (start p) = (Raises e, \<lparr>proc = p1, steps = [Import ''server'']\<rparr>)"
    by (rule main_stops_at_server)
next
  fix m e p1 p2
  assume "server_module env p = (Returns m, p1)" "csv_tools_module env p1 = (Raises e, p2)"
  then show "main env name (start p) =
        (Raises e, \<lparr>proc = p2, steps = [Import ''server'', Import ''tools.csv_tools'']\<rparr>)"
    by (rule main_stops_at_csv_tools)
next
  fix m e p1 p2 p3
  assume "server_module env p = (Returns m, p1)" "csv_tools_module env p1 = (Returns (), p2)"
    "parquet_tools_module env p2 = (Raises e, p3)"
  then show "main env name (start p) =
        (Raises e, \<lparr>proc = p3, steps = [Import ''server'', Import ''tools.csv_tools'',
           Import ''tools.parquet_tools'']\<rparr>)"
    by (rule main_stops_at_parquet_tools)
next
  fix m e p1 p2 p3 p4
  assume "server_module env p = (Returns m, p1)" "csv_tools_module env p1 = (Returns (), p2)"
    "parquet_tools_module env p2 = (Returns (), p3)" "mcp_run env m p3 = (Raises e, p4)"
  then show "main env ''__main__'' (start p) =
        (Raises e, \<lparr>proc = p4, steps = [Import ''server'', Import ''tools.csv_tools'',
           Import ''tools.parquet_tools'', Run m]\<rparr>)"
    by (simp add: main_as_program)
qed

theorem errors_propagate_witness:
  "fst (generate_parquet plain_lib empty_world) = Inl FileNotFoundError
   \<and> fst (generate_parquet (failing_lib 0) sample_world) = Inl ParserError
   \<and> calls (snd (generate_parquet (failing_lib 0) sample_world)) = [Read_csv input_path]
   \<and> fst (generate_parquet (failing_lib 1) sample_world) = Inl OSError
   \<and> calls (snd (generate_parquet (failing_lib 1) sample_world)) =
       [Read_csv input_path, To_parquet ''a,b,c'' output_path False]
   \<and> fst (generate_parquet (failing_lib 2) sample_world) = Inl (Exception ''UnicodeEncodeError'')
   \<and> main (sample_env 0) ''__main__'' (start idle_proc) =
       (Raises ImportError, \<lparr>proc = idle_proc, steps = [Import ''server'']\<rparr>)
   \<and> main (sample_env 1) ''__main__'' (start idle_proc) =
       (Raises ImportError,
        \<lparr>proc = idle_proc, steps = [Import ''server'', Import ''tools.csv_tools'']\<rparr>)
   \<and> main (sample_env 2) ''__main__'' (start idle_proc) =
       (Raises ImportError,
        \<lparr>proc = idle_proc, steps = [Import ''server'', Import ''tools.csv_tools'',
           Import ''tools.parquet_tools'']\<rparr>)
   \<and> main raising_env ''__main__'' (start idle_proc) =
       (Raises OSError,
        \<lparr>proc = idle_proc, steps = [Import ''server'', Import ''tools.csv_tools'',
           Import ''tools.parquet_tools'', Run ''mcp'']\<rparr>)"
proof -
  have none: "files empty_world input_path = None"
    by (simp add: empty_world_def)
  have some: "files sample_world input_path = Some ''a,b,c''"
    by (simp add: sample_world_def)
  have out: "files sample_world output_path = None"
    using input_neq_output by (simp add: sample_world_def)
  have calls0: "calls sample_world = []"
    by (simp add: sample_world_def)
  have l0: "parse_csv (failing_lib 0) input_path ''a,b,c'' = Inl ParserError"
    by (simp add: failing_lib_def)
  have l1: "parse_csv (failing_lib 1) input_path ''a,b,c'' = Inr ''a,b,c''"
    "write_parquet (failing_lib 1) ''a,b,c'' output_path False (files sample_world output_path)
       = Write_failed OSError None"
    by (simp_all add: failing_lib_def)
  have l2: "parse_csv (failing_lib 2) input_path ''a,b,c'' = Inr ''a,b,c''"
    "write_parquet (failing_lib 2) ''a,b,c'' output_path False (files sample_world output_path)
       = Wrote ''a,b,c''"
    "emit (failing_lib 2) message = Refuses (Exception ''UnicodeEncodeError'')"
    by (simp_all add: failing_lib_def)
  have e0: "server_module (sample_env 0) idle_proc = (Raises ImportError, idle_proc)"
    by (simp add: sample_env_def)
  have e1: "server_module (sample_env 1) idle_proc = (Returns ''mcp'', idle_proc)"
    "csv_tools_module (sample_env 1) idle_proc = (Raises ImportError, idle_proc)"
    by (simp_all add: sample_env_def)
  have e2: "server_module (sample_env 2) idle_proc = (Returns ''mcp'', idle_proc)"
    "csv_tools_module (sample_env 2) idle_proc = (Returns (), idle_proc)"
    "parquet_tools_module (sample_env 2) idle_proc = (Raises ImportError, idle_proc)"
    by (simp_all add: sample_env_def)
  have e3: "server_module raising_env idle_proc = (Returns ''mcp'', idle_proc)"
    "csv_tools_module raising_env idle_proc = (Returns (), idle_proc)"
    "parquet_tools_module raising_env idle_proc = (Returns (), idle_proc)"
    "mcp_run raising_env ''mcp'' idle_proc = (Raises OSError, idle_proc)"
    by (simp_all add: raising_env_def)
  note a = errors_propagate [of empty_world plain_lib, THEN conjunct1, THEN mp, OF none]
  note b = errors_propagate [of sample_world "failing_lib 0", THEN conjunct2, THEN conjunct1,
      rule_format, OF some l0]
  note c = errors_propagate [of sample_world "failing_lib 1", THEN conjunct2, THEN conjunct2,
      THEN conjunct1, rule_format, OF some l1]
  note d = errors_propagate [of sample_world "failing_lib 2", THEN conjunct2, THEN conjunct2,
      THEN conjunct2, THEN conjunct1, rule_format, OF some l2]
  note tl = conjunct2 [THEN conjunct2, THEN conjunct2, THEN conjunct2]
  note f = errors_propagate [where env = "sample_env 0" and p = idle_proc
      and name = "''__main__''", THEN tl, THEN conjunct1, rule_format, OF e0]
  note g = errors_propagate [where env = "sample_env 1" and p = idle_proc
      and name = "''__main__''", THEN tl, THEN conjunct2, THEN conjunct1, rule_format, OF e1]
  note h = errors_propagate [where env = "sample_env 2" and p = idle_proc
      and name = "''__main__''", THEN tl, THEN conjunct2, THEN conjunct2, THEN conjunct1,
      rule_format, OF e2]
  note i = errors_propagate [where env = raising_env and p = idle_proc,
      THEN tl, THEN conjunct2, THEN conjunct2, THEN conjunct2, rule_format, OF e3]
  from a b c d f g h i calls0 show ?thesis by simp
qed

end
